theory Spec2Isabelle
  imports Complex_Main
begin

section \<open>Farm size versus income: the numeric model\<close>

text \<open>
  The program is a single Python script, \<open>Farm_Size_Income.py\<close>. Its numbers are Python
  ints (slider and input-box values), Python floats (the cocoa market price) and numpy
  arrays (\<open>np.arange(1, 11, 1)\<close> and what is computed from it). Finite numbers are
  modelled as \<open>real\<close>: every finite int or float is a real, and the rounding of float64
  arithmetic is not part of the model. What a division does at a zero divisor is part of
  the model, since Python and numpy differ there:
  \<^item> Python's \<open>a / b\<close> on numbers raises \<open>ZeroDivisionError\<close> when \<open>b\<close> is zero;
  \<^item> numpy's \<open>array / b\<close> raises nothing (it only warns): an element divided by zero is
    \<open>inf\<close>, \<open>-inf\<close> or \<open>nan\<close>, and \<open>np.ceil\<close> passes these three through.
\<close>

datatype py_error = ZeroDivisionError

datatype npfloat = Fin real | PosInf | NegInf | NaN

definition py_div :: "real \<Rightarrow> real \<Rightarrow> py_error + real" where
  "py_div a b = (if b = 0 then Inl ZeroDivisionError else Inr (a / b))"

definition np_true_divide :: "real \<Rightarrow> real \<Rightarrow> npfloat" where
  "np_true_divide a b =
     (if b = 0 then (if 0 < a then PosInf else if a < 0 then NegInf else NaN)
      else Fin (a / b))"

fun np_ceil :: "npfloat \<Rightarrow> npfloat" where
  "np_ceil (Fin x) = Fin (of_int \<lceil>x\<rceil>)"
| "np_ceil PosInf = PosInf"
| "np_ceil NegInf = NegInf"
| "np_ceil NaN = NaN"

section \<open>The income simulation\<close>

text \<open>
  \<^verbatim>\<open>
  def simulate_income(farm_sizes, YH, MCH, LTH, CMP=2.5, MLT=2000, LC=10):
      incomes = []
      for size in farm_sizes:
          yield_total = YH * size
          material_cost_total = MCH * size
          farm_owner_labor_time = min(LTH * size, MLT)
          hired_labor_hours = max(0, (LTH * size) - MLT)
          income = (yield_total * CMP) - (material_cost_total) - (hired_labor_hours * LC)
          incomes.append(income)
      return incomes
  \<close>
  The local \<open>hired_labor_hours\<close> is a definition of its own, so that it can be named in
  a statement; the loop is a recursion over the sizes still to visit, carrying the list
  \<open>incomes\<close> built so far.
\<close>

definition hired_labor_hours :: "real \<Rightarrow> real \<Rightarrow> real \<Rightarrow> real" where
  "hired_labor_hours LTH sz MLT = max 0 ((LTH * sz) - MLT)"

definition income :: "real \<Rightarrow> real \<Rightarrow> real \<Rightarrow> real \<Rightarrow> real \<Rightarrow> real \<Rightarrow> real \<Rightarrow> real" where
  "income sz YH MCH LTH CMP MLT LC =
     (let yield_total = YH * sz;
          material_cost_total = MCH * sz;
          farm_owner_labor_time = min (LTH * sz) MLT
      in (yield_total * CMP) - material_cost_total - (hired_labor_hours LTH sz MLT * LC))"

fun simulate_income_loop ::
  "real list \<Rightarrow> real \<Rightarrow> real \<Rightarrow> real \<Rightarrow> real \<Rightarrow> real \<Rightarrow> real \<Rightarrow> real list \<Rightarrow> real list" where
  "simulate_income_loop [] YH MCH LTH CMP MLT LC incomes = incomes"
| "simulate_income_loop (sz # rest) YH MCH LTH CMP MLT LC incomes =
     simulate_income_loop rest YH MCH LTH CMP MLT LC
       (incomes @ [income sz YH MCH LTH CMP MLT LC])"

definition simulate_income ::
  "real list \<Rightarrow> real \<Rightarrow> real \<Rightarrow> real \<Rightarrow> real \<Rightarrow> real \<Rightarrow> real \<Rightarrow> real list" where
  "simulate_income farm_sizes YH MCH LTH CMP MLT LC =
     simulate_income_loop farm_sizes YH MCH LTH CMP MLT LC []"

section \<open>The script around it\<close>

text \<open>
  \<^verbatim>\<open>
  area_one_farmer_can_manage = MLT / standard_LTH
  \<close>
  Both operands are Python numbers read from input boxes, so this is Python's division.
\<close>

definition area_one_farmer_can_manage :: "real \<Rightarrow> real \<Rightarrow> py_error + real" where
  "area_one_farmer_can_manage MLT standard_LTH = py_div MLT standard_LTH"

text \<open>
  \<^verbatim>\<open>
  labor_times = LTH * farm_sizes
  full_time_farmers = np.ceil(labor_times / MLT)
  \<close>
  \<open>farm_sizes\<close> is a numpy array, so the product, the quotient and the ceiling are
  taken element by element, and the division is numpy's.
\<close>

definition labor_times :: "real \<Rightarrow> real list \<Rightarrow> real list" where
  "labor_times LTH farm_sizes = map (\<lambda>sz. LTH * sz) farm_sizes"

definition full_time_farmers :: "real \<Rightarrow> real list \<Rightarrow> real \<Rightarrow> npfloat list" where
  "full_time_farmers LTH farm_sizes MLT =
     map np_ceil (map (\<lambda>t. np_true_divide t MLT) (labor_times LTH farm_sizes))"

text \<open>
  The script itself. The widget values are its inputs: \<open>CMP\<close>, \<open>standard_LTH\<close>, \<open>MLT\<close>
  and \<open>LC\<close> from the four input boxes, and for each farm the triple \<open>(YH, MCH, LTH)\<close> of
  its three sliders. The area metric is computed first, so an error there ends the run
  before any farm is simulated. For each farm the script computes the incomes and the
  full-time farmer counts over \<open>farm_sizes = np.arange(1, 11, 1)\<close>; the tables and
  charts it then draws from them are not modelled.
\<close>

definition farm_sizes :: "real list" where
  "farm_sizes = [1, 2, 3, 4, 5, 6, 7, 8, 9, 10]"

definition farm_data ::
  "real \<Rightarrow> real \<Rightarrow> real \<Rightarrow> real \<times> real \<times> real \<Rightarrow> real list \<times> npfloat list" where
  "farm_data CMP MLT LC = (\<lambda>(YH, MCH, LTH).
     (simulate_income farm_sizes YH MCH LTH CMP MLT LC,
      full_time_farmers LTH farm_sizes MLT))"

definition script ::
  "real \<Rightarrow> real \<Rightarrow> real \<Rightarrow> real \<Rightarrow> (real \<times> real \<times> real) list
     \<Rightarrow> py_error + real \<times> (real list \<times> npfloat list) list" where
  "script CMP standard_LTH MLT LC farms =
     (case area_one_farmer_can_manage MLT standard_LTH of
        Inl e \<Rightarrow> Inl e
      | Inr area \<Rightarrow> Inr (area, map (farm_data CMP MLT LC) farms))"

section \<open>Helper lemmas\<close>

lemma simulate_income_loop_append:
  "simulate_income_loop sizes YH MCH LTH CMP MLT LC incomes =
     incomes @ map (\<lambda>sz. income sz YH MCH LTH CMP MLT LC) sizes"
  by (induction sizes arbitrary: incomes) simp_all

lemma simulate_income_map:
  "simulate_income sizes YH MCH LTH CMP MLT LC =
     map (\<lambda>sz. income sz YH MCH LTH CMP MLT LC) sizes"
  by (simp add: simulate_income_def simulate_income_loop_append)

lemma full_time_farmers_nth:
  "i < length sizes \<Longrightarrow>
     full_time_farmers LTH sizes MLT ! i = np_ceil (np_true_divide (LTH * (sizes ! i)) MLT)"
  by (simp add: full_time_farmers_def labor_times_def)

lemma simulate_income_nth:
  "i < length sizes \<Longrightarrow>
     simulate_income sizes YH MCH LTH CMP MLT LC ! i = income (sizes ! i) YH MCH LTH CMP MLT LC"
  by (simp add: simulate_income_map)

lemma full_time_farmers_nth_Fin:
  "MLT \<noteq> 0 \<Longrightarrow> i < length sizes \<Longrightarrow>
     full_time_farmers LTH sizes MLT ! i = Fin (of_int \<lceil>LTH * (sizes ! i) / MLT\<rceil>)"
  by (simp add: full_time_farmers_nth np_true_divide_def)

text \<open>The income is linear in the farm size on each side of the hired-labour threshold.\<close>

lemma income_below:
  "LTH * sz \<le> MLT \<Longrightarrow> income sz YH MCH LTH CMP MLT LC = (YH * CMP - MCH) * sz"
  by (simp add: income_def hired_labor_hours_def algebra_simps)

lemma income_above:
  "MLT \<le> LTH * sz \<Longrightarrow>
     income sz YH MCH LTH CMP MLT LC = (YH * CMP - MCH - LTH * LC) * sz + MLT * LC"
  by (simp add: income_def hired_labor_hours_def algebra_simps)

text \<open>
  The script returns a result exactly when \<open>standard_LTH\<close> is not zero; it raises at the
  area metric otherwise.
\<close>

lemma script_returns_iff:
  "(\<exists>r. script CMP standard_LTH MLT LC farms = Inr r) \<longleftrightarrow> standard_LTH \<noteq> 0"
  by (simp add: script_def area_one_farmer_can_manage_def py_div_def)

lemmas eval_defs =
  script_def area_one_farmer_can_manage_def py_div_def farm_data_def farm_sizes_def
  full_time_farmers_def labor_times_def np_true_divide_def simulate_income_def income_def
  hired_labor_hours_def

section \<open>Claims\<close>

text \<open>
  C1. For every sequence of farm sizes and all parameters, \<open>simulate_income\<close> returns one
  income per farm size, in the order of the input, and the income for a size \<open>s\<close> is
  \<open>YH * s * CMP - MCH * s - max 0 (LTH * s - MLT) * LC\<close>.
\<close>

theorem simulate_income_formula:
  "simulate_income sizes YH MCH LTH CMP MLT LC =
     map (\<lambda>s. YH * s * CMP - MCH * s - max 0 (LTH * s - MLT) * LC) sizes"
  by (simp add: simulate_income_map income_def hired_labor_hours_def)

text \<open>
  C2. When \<open>MLT\<close> is positive, the full-time farmer count of every farm size \<open>s\<close> is the
  ceiling of \<open>(LTH * s) / MLT\<close>, a finite number.
\<close>

theorem full_time_farmers_ceiling:
  "0 < MLT \<Longrightarrow>
     full_time_farmers LTH sizes MLT = map (\<lambda>s. Fin (of_int \<lceil>(LTH * s) / MLT\<rceil>)) sizes"
  by (simp add: full_time_farmers_def labor_times_def np_true_divide_def)

text \<open>At \<open>LTH = 100\<close>, \<open>MLT = 200\<close>: one farmer for one hectare, two for three hectares.\<close>

theorem full_time_farmers_ceiling_witness:
  "(0::real) < 200 \<and> full_time_farmers 100 [1, 3] 200 = [Fin 1, Fin 2]"
  using full_time_farmers_ceiling [of 200 100 "[1, 3]"] by (simp add: ceiling_eq_iff)

text \<open>
  C3 (as amended). With \<open>MLT = 0\<close> nothing fails in the computation of the full-time
  farmer counts: the division is numpy's, so the count of a farm size \<open>s\<close> is \<open>inf\<close> when
  \<open>LTH * s\<close> is positive, \<open>-inf\<close> when it is negative and \<open>nan\<close> when it is zero, one
  entry per farm size, and \<open>simulate_income\<close> still returns one income per farm size. The
  area metric is \<open>0\<close> for \<open>MLT = 0\<close> and any non-zero \<open>standard_LTH\<close>; it raises
  \<open>ZeroDivisionError\<close> only when \<open>standard_LTH\<close> is zero.
\<close>

theorem zero_MLT_no_error:
  "full_time_farmers LTH sizes 0 =
     map (\<lambda>s. if 0 < LTH * s then PosInf else if LTH * s < 0 then NegInf else NaN) sizes
   \<and> length (simulate_income sizes YH MCH LTH CMP 0 LC) = length sizes
   \<and> area_one_farmer_can_manage 0 standard_LTH =
       (if standard_LTH = 0 then Inl ZeroDivisionError else Inr 0)"
  by (simp add: full_time_farmers_def labor_times_def np_true_divide_def
      area_one_farmer_can_manage_def py_div_def simulate_income_map)

theorem zero_MLT_no_error_witness:
  "full_time_farmers 100 [1, 0, - 1] 0 = [PosInf, NaN, NegInf]
   \<and> length (simulate_income [1, 0, - 1] 500 200 100 (5 / 2) 0 10) = 3
   \<and> area_one_farmer_can_manage 0 100 = Inr 0
   \<and> area_one_farmer_can_manage 0 0 = Inl ZeroDivisionError"
  using zero_MLT_no_error [of 100 "[1, 0, - 1]" 500 200 "5 / 2" 10 100]
    zero_MLT_no_error [of 100 "[1, 0, - 1]" 500 200 "5 / 2" 10 0]
  by simp

text \<open>
  As first stated, C3 asks for a failure whenever \<open>MLT = 0\<close>. A whole run of the script
  with \<open>MLT = 0\<close> and the other defaults of the first farm returns: the area metric is
  \<open>0\<close>, the ten incomes are there, and the ten farmer counts are all \<open>inf\<close>.
\<close>

theorem zero_MLT_counterexample:
  "script (5 / 2) 100 0 10 [(500, 200, 100)] =
     Inr (0, [([50, 100, 150, 200, 250, 300, 350, 400, 450, 500],
               [PosInf, PosInf, PosInf, PosInf, PosInf, PosInf, PosInf, PosInf, PosInf, PosInf])])"
  by (simp add: eval_defs)

text \<open>
  C4. When \<open>MLT\<close> is positive, the full-time farmer count of every positive farm size
  should be at least \<open>1\<close>: the script's own comment on the count says that it ``already
  includes the farm owner since it's rounded up''. The code does not keep to it. The
  labour-time slider starts at \<open>0\<close>, and a run with \<open>LTH = 0\<close> for a farm, all else at
  its default, reports a count of \<open>0\<close> at every farm size from one to ten hectares.
\<close>

theorem full_time_farmers_zero_at_LTH_zero:
  "script (5 / 2) 100 200 10 [(500, 200, 0)] =
     Inr (2, [([1050, 2100, 3150, 4200, 5250, 6300, 7350, 8400, 9450, 10500],
               [Fin 0, Fin 0, Fin 0, Fin 0, Fin 0, Fin 0, Fin 0, Fin 0, Fin 0, Fin 0])])"
  by (simp add: eval_defs)

text \<open>
  C5. When \<open>MLT\<close> is positive and the labour demand \<open>LTH * s\<close> of a farm size \<open>s\<close> is not
  negative, labour is hired at \<open>s\<close> (\<open>hired_labor_hours\<close> is positive) exactly when the
  full-time farmer count at \<open>s\<close> is at least \<open>2\<close>.
\<close>

theorem hired_iff_two_farmers:
  assumes "0 < MLT" and "i < length sizes" and "0 \<le> LTH * (sizes ! i)"
  shows "\<exists>c. full_time_farmers LTH sizes MLT ! i = Fin c \<and>
           (0 < hired_labor_hours LTH (sizes ! i) MLT \<longleftrightarrow> 2 \<le> c)"
proof -
  let ?t = "LTH * (sizes ! i)"
  have "0 < hired_labor_hours LTH (sizes ! i) MLT \<longleftrightarrow> MLT < ?t"
    by (auto simp: hired_labor_hours_def)
  also have "\<dots> \<longleftrightarrow> 1 < ?t / MLT"
    using assms(1) by (simp add: pos_less_divide_eq)
  also have "\<dots> \<longleftrightarrow> 2 \<le> \<lceil>?t / MLT\<rceil>"
    by (simp add: le_ceiling_iff)
  also have "\<dots> \<longleftrightarrow> (2::real) \<le> of_int \<lceil>?t / MLT\<rceil>"
    by linarith
  finally show ?thesis
    using assms by (simp add: full_time_farmers_nth_Fin)
qed

text \<open>
  At \<open>LTH = 100\<close>, \<open>MLT = 200\<close>: at two hectares nothing is hired and the count is \<open>1\<close>,
  at three hectares \<open>100\<close> days are hired and the count is \<open>2\<close>.
\<close>

theorem hired_iff_two_farmers_witness:
  "(0::real) < 200 \<and> (1::nat) < length [1, 2, 3 :: real] \<and> (0::real) \<le> 100 * [1, 2, 3] ! 1
   \<and> (0::real) \<le> 100 * [1, 2, 3] ! 2
   \<and> hired_labor_hours 100 2 200 = 0 \<and> full_time_farmers 100 [1, 2, 3] 200 ! 1 = Fin 1
   \<and> hired_labor_hours 100 3 200 = 100 \<and> full_time_farmers 100 [1, 2, 3] 200 ! 2 = Fin 2"
  using hired_iff_two_farmers [of 200 1 "[1, 2, 3]" 100]
    hired_iff_two_farmers [of 200 2 "[1, 2, 3]" 100]
  by (simp add: hired_labor_hours_def full_time_farmers_def labor_times_def
      np_true_divide_def ceiling_eq_iff)

text \<open>
  C6. For a fixed farm and positive \<open>MLT\<close> the full-time farmer count does not decrease
  with the farm size: a larger farm size has a count at least as large, and both counts
  are finite. The labour time per hectare of a farm is not negative: the script reads
  \<open>LTH\<close> from a slider whose \<open>min_value\<close> is \<open>0\<close>.
\<close>

theorem full_time_farmers_mono:
  assumes "0 < MLT" and "0 \<le> LTH" and "i < length sizes" and "j < length sizes"
    and "sizes ! i \<le> sizes ! j"
  shows "\<exists>c1 c2. full_time_farmers LTH sizes MLT ! i = Fin c1 \<and>
           full_time_farmers LTH sizes MLT ! j = Fin c2 \<and> c1 \<le> c2"
proof -
  have "LTH * (sizes ! i) \<le> LTH * (sizes ! j)"
    using assms by (simp add: mult_left_mono)
  then have "LTH * (sizes ! i) / MLT \<le> LTH * (sizes ! j) / MLT"
    using assms(1) by (simp add: divide_right_mono)
  then have "\<lceil>LTH * (sizes ! i) / MLT\<rceil> \<le> \<lceil>LTH * (sizes ! j) / MLT\<rceil>"
    by (rule ceiling_mono)
  then have "(of_int \<lceil>LTH * (sizes ! i) / MLT\<rceil> :: real)
      \<le> of_int \<lceil>LTH * (sizes ! j) / MLT\<rceil>"
    by simp
  then show ?thesis
    using assms by (simp add: full_time_farmers_nth_Fin)
qed

theorem full_time_farmers_mono_witness:
  "(0::real) < 200 \<and> (0::real) \<le> 100 \<and> (1::nat) < length [1, 3 :: real]
   \<and> [1, 3 :: real] ! 0 \<le> [1, 3] ! 1
   \<and> (\<exists>c1 c2. full_time_farmers 100 [1, 3] 200 ! 0 = Fin c1 \<and>
         full_time_farmers 100 [1, 3] 200 ! 1 = Fin c2 \<and> c1 \<le> c2)"
  using full_time_farmers_mono [of 200 100 0 "[1, 3]" 1] by simp

text \<open>
  C7. Let \<open>MCH < YH * CMP\<close> and let \<open>LTH\<close>, \<open>LC\<close> and \<open>MLT\<close> be positive. Between two farm
  sizes at or beyond the crossing point \<open>MLT / LTH\<close> the income grows by
  \<open>YH * CMP - MCH - LTH * LC\<close> per hectare; between two farm sizes at or below it the
  income grows by \<open>YH * CMP - MCH\<close> per hectare; and the first rate is strictly smaller
  than the second.
\<close>

theorem income_slope_change:
  assumes "MCH < YH * CMP" and "0 < LTH" and "0 < LC" and "0 < MLT"
    and "i < length sizes" and "j < length sizes"
    and "MLT / LTH \<le> sizes ! i" and "MLT / LTH \<le> sizes ! j"
    and "k < length sizes" and "l < length sizes"
    and "sizes ! k \<le> MLT / LTH" and "sizes ! l \<le> MLT / LTH"
  shows "simulate_income sizes YH MCH LTH CMP MLT LC ! j
           - simulate_income sizes YH MCH LTH CMP MLT LC ! i
         = (YH * CMP - MCH - LTH * LC) * (sizes ! j - sizes ! i)
       \<and> simulate_income sizes YH MCH LTH CMP MLT LC ! l
           - simulate_income sizes YH MCH LTH CMP MLT LC ! k
         = (YH * CMP - MCH) * (sizes ! l - sizes ! k)
       \<and> YH * CMP - MCH - LTH * LC < YH * CMP - MCH"
proof (intro conjI)
  have "MLT \<le> LTH * (sizes ! i)" and "MLT \<le> LTH * (sizes ! j)"
    using assms(2,7,8) by (simp_all add: pos_divide_le_eq mult.commute)
  then show "simulate_income sizes YH MCH LTH CMP MLT LC ! j
               - simulate_income sizes YH MCH LTH CMP MLT LC ! i
             = (YH * CMP - MCH - LTH * LC) * (sizes ! j - sizes ! i)"
    using assms(5,6) by (simp add: simulate_income_nth income_above algebra_simps)
next
  have "LTH * (sizes ! k) \<le> MLT" and "LTH * (sizes ! l) \<le> MLT"
    using assms(2,11,12) by (simp_all add: pos_le_divide_eq mult.commute)
  then show "simulate_income sizes YH MCH LTH CMP MLT LC ! l
               - simulate_income sizes YH MCH LTH CMP MLT LC ! k
             = (YH * CMP - MCH) * (sizes ! l - sizes ! k)"
    using assms(9,10) by (simp add: simulate_income_nth income_below algebra_simps)
next
  show "YH * CMP - MCH - LTH * LC < YH * CMP - MCH"
    using assms(2,3) by simp
qed

text \<open>
  With the defaults of the first farm the crossing point is at two hectares. From one
  to two hectares the income grows by \<open>1050\<close>, from three to five hectares by \<open>2 * 50\<close>.
\<close>

theorem income_slope_change_witness:
  "(200::real) < 500 * (5 / 2) \<and> (0::real) < 100 \<and> (0::real) < 10 \<and> (0::real) < 200
   \<and> (4::nat) < length [1, 2, 3, 4, 5 :: real]
   \<and> (200::real) / 100 \<le> [1, 2, 3, 4, 5] ! 2 \<and> [1, 2, 3, 4, 5 :: real] ! 1 \<le> 200 / 100
   \<and> simulate_income [1, 2, 3, 4, 5] 500 200 100 (5 / 2) 200 10 ! 4
       - simulate_income [1, 2, 3, 4, 5] 500 200 100 (5 / 2) 200 10 ! 2 = 100
   \<and> simulate_income [1, 2, 3, 4, 5] 500 200 100 (5 / 2) 200 10 ! 1
       - simulate_income [1, 2, 3, 4, 5] 500 200 100 (5 / 2) 200 10 ! 0 = 1050"
  using income_slope_change [of 200 500 "5 / 2" 100 10 200 2 "[1, 2, 3, 4, 5]" 4 0 1]
  by (simp add: simulate_income_def income_def hired_labor_hours_def)

text \<open>
  C8. When \<open>MLT\<close> is positive, a farm size of \<open>0\<close> has an income of \<open>0\<close> and a full-time
  farmer count of \<open>0\<close>.
\<close>

theorem zero_size_zero_result:
  assumes "0 < MLT" and "i < length sizes" and "sizes ! i = 0"
  shows "simulate_income sizes YH MCH LTH CMP MLT LC ! i = 0
       \<and> full_time_farmers LTH sizes MLT ! i = Fin 0"
  using assms
  by (simp add: simulate_income_nth income_def hired_labor_hours_def full_time_farmers_nth_Fin)

theorem zero_size_zero_result_witness:
  "(0::real) < 200 \<and> (0::nat) < length [0, 1 :: real] \<and> [0, 1 :: real] ! 0 = 0
   \<and> simulate_income [0, 1] 500 200 100 (5 / 2) 200 10 = [0, 1050]
   \<and> full_time_farmers 100 [0, 1] 200 = [Fin 0, Fin 1]"
  using zero_size_zero_result [of 200 0 "[0, 1]" 500 200 100 "5 / 2" 10]
  by (simp add: simulate_income_def income_def hired_labor_hours_def full_time_farmers_def
      labor_times_def np_true_divide_def ceiling_eq_iff)

text \<open>
  C9. When \<open>standard_LTH\<close> is not zero, the area one farmer can manage alone is
  \<open>MLT / standard_LTH\<close>. It is one number for a run of the script, whatever the farms
  and their sizes; for \<open>MLT = 200\<close> and \<open>standard_LTH = 100\<close> it is \<open>2\<close>.
\<close>

theorem area_one_farmer_can_manage_value:
  "standard_LTH \<noteq> 0 \<Longrightarrow>
     area_one_farmer_can_manage MLT standard_LTH = Inr (MLT / standard_LTH)
   \<and> (\<exists>r. script CMP standard_LTH MLT LC farms = Inr (MLT / standard_LTH, r))"
  by (simp add: area_one_farmer_can_manage_def py_div_def script_def)

theorem area_one_farmer_can_manage_value_witness:
  "(100::real) \<noteq> 0 \<and> area_one_farmer_can_manage 200 100 = Inr 2
   \<and> (\<exists>r. script (5 / 2) 100 200 10 [(500, 200, 100), (1500, 600, 160)] = Inr (2, r))"
  using area_one_farmer_can_manage_value
    [of 100 200 "5 / 2" 10 "[(500, 200, 100), (1500, 600, 160)]"]
  by simp

text \<open>
  C10. The incomes do not depend on \<open>standard_LTH\<close>: two runs of the script that differ
  only in \<open>standard_LTH\<close> and both return have the same income sequences, namely what
  \<open>simulate_income\<close> returns for each farm, in which \<open>standard_LTH\<close> does not occur.
  (By \<open>script_returns_iff\<close> a run returns unless \<open>standard_LTH\<close> is zero.)
\<close>

theorem incomes_independent_of_standard_LTH:
  assumes "script CMP std1 MLT LC farms = Inr (a1, r1)"
    and "script CMP std2 MLT LC farms = Inr (a2, r2)"
  shows "map fst r1 = map fst r2
       \<and> map fst r1 =
           map (\<lambda>(YH, MCH, LTH). simulate_income farm_sizes YH MCH LTH CMP MLT LC) farms"
  using assms
  by (auto simp: script_def area_one_farmer_can_manage_def py_div_def farm_data_def
      split: if_splits)

text \<open>
  With \<open>standard_LTH = 100\<close> the area metric is \<open>2\<close>, with \<open>standard_LTH = 50\<close> it is
  \<open>4\<close>; the incomes of the first farm are the same in both runs.
\<close>

theorem incomes_independent_of_standard_LTH_witness:
  "script (5 / 2) 100 200 10 [(500, 200, 100)] =
     Inr (2, [([1050, 2100, 2150, 2200, 2250, 2300, 2350, 2400, 2450, 2500],
               [Fin 1, Fin 1, Fin 2, Fin 2, Fin 3, Fin 3, Fin 4, Fin 4, Fin 5, Fin 5])])
   \<and> script (5 / 2) 50 200 10 [(500, 200, 100)] =
     Inr (4, [([1050, 2100, 2150, 2200, 2250, 2300, 2350, 2400, 2450, 2500],
               [Fin 1, Fin 1, Fin 2, Fin 2, Fin 3, Fin 3, Fin 4, Fin 4, Fin 5, Fin 5])])
   \<and> map (\<lambda>(YH, MCH, LTH). simulate_income farm_sizes YH MCH LTH (5 / 2) 200 10)
         [(500, 200, 100)]
       = [[1050, 2100, 2150, 2200, 2250, 2300, 2350, 2400, 2450, 2500]]"
proof -
  let ?r = "[([1050, 2100, 2150, 2200, 2250, 2300, 2350, 2400, 2450, 2500 :: real],
              [Fin 1, Fin 1, Fin 2, Fin 2, Fin 3, Fin 3, Fin 4, Fin 4, Fin 5, Fin 5])]"
  have h1: "script (5 / 2) 100 200 10 [(500, 200, 100)] = Inr (2, ?r)"
    by (simp add: eval_defs ceiling_eq_iff)
  have h2: "script (5 / 2) 50 200 10 [(500, 200, 100)] = Inr (4, ?r)"
    by (simp add: eval_defs ceiling_eq_iff)
  show ?thesis
    using h1 h2 incomes_independent_of_standard_LTH [OF h1 h2] by simp
qed

end
